theory Spec2Isabelle
  imports Main
begin

section \<open>Process isolation runner\<close>

text \<open>
  The embedding follows \<^verbatim>\<open>src/main.py\<close>. Python text is modelled as \<^typ>\<open>string\<close>.
  Everything the operating system decides during one call of the runner is collected
  in a record: the name the temporary file receives, whether creating and writing it
  succeed, what \<^verbatim>\<open>subprocess.run\<close> does with the program text within the given
  timeout, and what the child process does to the files while it runs.
\<close>

type_synonym files = "string \<rightharpoonup> string"

datatype proc_outcome =
    Completed int string string
  | TimeoutExpired
  | SpawnError string

datatype error =
    TempCreateFailed
  | TempWriteFailed
  | SpawnFailed string
  | HTTP_404 string
  | HTTP_400 string
  | KeyError string
  | TypeError string
  | AttributeError string

record exec_result =
  returncode :: int
  stdout :: string
  stderr :: string

record os_env =
  tmp_name :: string
  create_ok :: bool
  write_ok :: bool
  spawn :: "string \<Rightarrow> nat \<Rightarrow> proc_outcome"
  child_files :: "files \<Rightarrow> files"

definition newline :: string where
  "newline = [CHR 0x0A]"

text \<open>
  The \<^verbatim>\<open>finally\<close> block: \<^verbatim>\<open>os.remove\<close> raises when the path does not exist (the
  child may have removed its own file), and the exception is swallowed.
\<close>

definition os_remove :: "files \<Rightarrow> string \<Rightarrow> unit option \<times> files" where
  "os_remove fs p = (case fs p of None \<Rightarrow> (None, fs) | Some _ \<Rightarrow> (Some (), fs(p := None)))"

definition remove_quietly :: "files \<Rightarrow> string \<Rightarrow> files" where
  "remove_quietly fs p = (case os_remove fs p of (None, fs') \<Rightarrow> fs' | (Some _, fs') \<Rightarrow> fs')"

definition timeout_default :: nat where
  "timeout_default = 2000"

text \<open>
  \<^verbatim>\<open>run_user_code_capture_stdout(code, preset, timeout)\<close>. The timeout is in
  milliseconds. The temporary file is created with \<^verbatim>\<open>delete=False\<close> and written
  before the \<^verbatim>\<open>try\<close> statement is entered, so a failure there leaves the
  \<^verbatim>\<open>finally\<close> block unexecuted.
\<close>

definition run_user_code_capture_stdout ::
  "os_env \<Rightarrow> files \<Rightarrow> string \<Rightarrow> string \<Rightarrow> nat \<Rightarrow> (error + exec_result) \<times> files" where
  "run_user_code_capture_stdout env fs code preset timeout =
     (let final_code = preset @ newline @ code in
      if \<not> create_ok env then (Inl TempCreateFailed, fs)
      else
        let tmp_path = tmp_name env;
            fs1 = fs(tmp_path \<mapsto> [])
        in if \<not> write_ok env then (Inl TempWriteFailed, fs1)
           else
             let fs2 = fs1(tmp_path \<mapsto> final_code);
                 fs3 = child_files env fs2;
                 r = (case spawn env final_code timeout of
                        Completed rc out err \<Rightarrow>
                          Inr \<lparr>returncode = rc, stdout = out, stderr = err\<rparr>
                      | TimeoutExpired \<Rightarrow>
                          Inr \<lparr>returncode = 124, stdout = [],
                               stderr = ''Execution timed out''\<rparr>
                      | SpawnError m \<Rightarrow> Inl (SpawnFailed m))
             in (r, remove_quietly fs3 tmp_path))"

section \<open>JSON values, \<^verbatim>\<open>json.dumps\<close> and \<^verbatim>\<open>json.loads\<close>\<close>

text \<open>
  The values that cross the process boundary. A Python \<^verbatim>\<open>dict\<close> keeps insertion order,
  so an object is an association list. Characters are 8-bit here: a code point above
  255 is outside the model (the decoder puts \<^verbatim>\<open>?\<close> for such an escape), and a
  floating-point number is kept as the text of its literal. The interpreter's own limits
  (recursion depth, digits of an integer) are not modelled.
\<close>

datatype json =
    JNull
  | JBool bool
  | JInt int
  | JFloat string
  | JStr string
  | JArr "json list"
  | JObj "(string \<times> json) list"

fun dict_get :: "(string \<times> json) list \<Rightarrow> string \<Rightarrow> json option" where
  "dict_get [] k = None"
| "dict_get ((k', v) # kvs) k = (if k' = k then Some v else dict_get kvs k)"

fun dict_set :: "(string \<times> json) list \<Rightarrow> string \<Rightarrow> json \<Rightarrow> (string \<times> json) list" where
  "dict_set [] k v = [(k, v)]"
| "dict_set ((k', v') # kvs) k v = (if k' = k then (k, v) # kvs else (k', v') # dict_set kvs k v)"

subsection \<open>Decimal and hexadecimal digits\<close>

definition digit_char :: "nat \<Rightarrow> char" where
  "digit_char d = char_of (48 + d)"

function nat_digits :: "nat \<Rightarrow> string" where
  "nat_digits n = (if n < 10 then [digit_char n] else nat_digits (n div 10) @ [digit_char (n mod 10)])"
  by pat_completeness auto
termination
  by (relation "measure id") auto

declare nat_digits.simps [simp del]

definition int_str :: "int \<Rightarrow> string" where
  "int_str i = (if i < 0 then CHR ''-'' # nat_digits (nat (- i)) else nat_digits (nat i))"

definition hex_char :: "nat \<Rightarrow> char" where
  "hex_char d = (if d < 10 then char_of (48 + d) else char_of (87 + d))"

definition is_digit :: "char \<Rightarrow> bool" where
  "is_digit c = (48 \<le> (of_char c :: nat) \<and> (of_char c :: nat) \<le> 57)"

definition digit_val :: "char \<Rightarrow> nat" where
  "digit_val c = (of_char c :: nat) - 48"

definition hex_val :: "char \<Rightarrow> nat option" where
  "hex_val c =
     (let n = (of_char c :: nat) in
      if 48 \<le> n \<and> n \<le> 57 then Some (n - 48)
      else if 97 \<le> n \<and> n \<le> 102 then Some (n - 87)
      else if 65 \<le> n \<and> n \<le> 70 then Some (n - 55)
      else None)"

definition digits_val :: "string \<Rightarrow> nat" where
  "digits_val ds = foldl (\<lambda>a c. 10 * a + digit_val c) 0 ds"

subsection \<open>\<^verbatim>\<open>json.dumps\<close> with its defaults\<close>

definition json_escape_char :: "char \<Rightarrow> string" where
  "json_escape_char c =
     (let n = (of_char c :: nat) in
      if c = CHR ''\"'' then [CHR 0x5C, CHR ''\"'']
      else if c = CHR 0x5C then [CHR 0x5C, CHR 0x5C]
      else if c = CHR 0x0A then [CHR 0x5C, CHR ''n'']
      else if c = CHR 0x0D then [CHR 0x5C, CHR ''r'']
      else if c = CHR 0x09 then [CHR 0x5C, CHR ''t'']
      else if c = CHR 0x08 then [CHR 0x5C, CHR ''b'']
      else if c = CHR 0x0C then [CHR 0x5C, CHR ''f'']
      else if n < 32 \<or> 126 < n then
        [CHR 0x5C, CHR ''u'', CHR ''0'', CHR ''0'', hex_char (n div 16), hex_char (n mod 16)]
      else [c])"

definition dumps_str :: "string \<Rightarrow> string" where
  "dumps_str s = [CHR ''\"''] @ concat (map json_escape_char s) @ [CHR ''\"'']"

fun join :: "string \<Rightarrow> string list \<Rightarrow> string" where
  "join sep [] = []"
| "join sep [x] = x"
| "join sep (x # y # ys) = x @ sep @ join sep (y # ys)"

fun dumps :: "json \<Rightarrow> string" where
  "dumps JNull = ''null''"
| "dumps (JBool b) = (if b then ''true'' else ''false'')"
| "dumps (JInt i) = int_str i"
| "dumps (JFloat t) = t"
| "dumps (JStr s) = dumps_str s"
| "dumps (JArr xs) = ''['' @ join '', '' (map dumps xs) @ '']''"
| "dumps (JObj kvs) =
     ''{'' @ join '', '' (map (\<lambda>(k, v). dumps_str k @ '': '' @ dumps v) kvs) @ ''}''"

subsection \<open>\<^verbatim>\<open>json.loads\<close>\<close>

text \<open>
  The decoder of the standard library: white space is blank, tab, line feed and
  carriage return; one value is read and only white space may follow it. \<^term>\<open>None\<close>
  stands for \<^verbatim>\<open>JSONDecodeError\<close>. Nested values are read with fuel; the fuel
  \<^verbatim>\<open>loads\<close> supplies exceeds the length of the text.
\<close>

definition is_ws :: "char \<Rightarrow> bool" where
  "is_ws c = (c = CHR '' '' \<or> c = CHR 0x09 \<or> c = CHR 0x0A \<or> c = CHR 0x0D)"

definition skip_ws :: "string \<Rightarrow> string" where
  "skip_ws s = dropWhile is_ws s"

definition unescape :: "char \<Rightarrow> char option" where
  "unescape e =
     (if e = CHR ''\"'' then Some (CHR ''\"'')
      else if e = CHR 0x5C then Some (CHR 0x5C)
      else if e = CHR ''/'' then Some (CHR ''/'')
      else if e = CHR ''b'' then Some (CHR 0x08)
      else if e = CHR ''f'' then Some (CHR 0x0C)
      else if e = CHR ''n'' then Some (CHR 0x0A)
      else if e = CHR ''r'' then Some (CHR 0x0D)
      else if e = CHR ''t'' then Some (CHR 0x09)
      else None)"

definition hex4 :: "char \<Rightarrow> char \<Rightarrow> char \<Rightarrow> char \<Rightarrow> char option" where
  "hex4 a b c d =
     (case (hex_val a, hex_val b, hex_val c, hex_val d) of
        (Some w, Some x, Some y, Some z) \<Rightarrow>
          (let n = ((w * 16 + x) * 16 + y) * 16 + z
           in Some (if n < 256 then char_of n else CHR ''?''))
      | _ \<Rightarrow> None)"

text \<open>The text after an opening quote, up to the closing one (strict mode).\<close>

fun scanstring :: "string \<Rightarrow> string \<Rightarrow> (string \<times> string) option" where
  "scanstring [] acc = None"
| "scanstring [c] acc = (if c = CHR ''\"'' then Some (rev acc, []) else None)"
| "scanstring (c # e # cs) acc =
     (if c = CHR ''\"'' then Some (rev acc, e # cs)
      else if c = CHR 0x5C then
        (if e = CHR ''u'' then
           (case cs of
              a # b # c' # d # rest \<Rightarrow>
                (case hex4 a b c' d of
                   None \<Rightarrow> None
                 | Some ch \<Rightarrow> scanstring rest (ch # acc))
            | _ \<Rightarrow> None)
         else
           (case unescape e of
              None \<Rightarrow> None
            | Some ch \<Rightarrow> scanstring cs (ch # acc)))
      else if (of_char c :: nat) < 32 then None
      else scanstring (e # cs) (c # acc))"

text \<open>
  Numbers: the pattern \<^verbatim>\<open>(-?(?:0|[1-9][0-9]*))(\.[0-9]+)?([eE][-+]?[0-9]+)?\<close>, matched
  as a prefix. Without fraction and exponent the number is an integer.
\<close>

definition scan_int_part :: "string \<Rightarrow> (string \<times> string) option" where
  "scan_int_part s =
     (case s of
        [] \<Rightarrow> None
      | c # cs \<Rightarrow>
          if c = CHR ''0'' then Some ([c], cs)
          else if is_digit c then Some (c # takeWhile is_digit cs, dropWhile is_digit cs)
          else None)"

definition scan_frac :: "string \<Rightarrow> string \<times> string" where
  "scan_frac s =
     (case s of
        c # cs \<Rightarrow>
          if c = CHR ''.'' \<and> takeWhile is_digit cs \<noteq> []
          then (c # takeWhile is_digit cs, dropWhile is_digit cs)
          else ([], s)
      | [] \<Rightarrow> ([], s))"

definition scan_exp :: "string \<Rightarrow> string \<times> string" where
  "scan_exp s =
     (case s of
        c # cs \<Rightarrow>
          if c = CHR ''e'' \<or> c = CHR ''E'' then
            (case cs of
               g # ds \<Rightarrow>
                 if (g = CHR ''+'' \<or> g = CHR ''-'') \<and> takeWhile is_digit ds \<noteq> []
                 then (c # g # takeWhile is_digit ds, dropWhile is_digit ds)
                 else if takeWhile is_digit cs \<noteq> []
                 then (c # takeWhile is_digit cs, dropWhile is_digit cs)
                 else ([], s)
             | [] \<Rightarrow> ([], s))
          else ([], s)
      | [] \<Rightarrow> ([], s))"

definition scan_number :: "string \<Rightarrow> (json \<times> string) option" where
  "scan_number s =
     (let (sign, s0) = (case s of c # cs \<Rightarrow> if c = CHR ''-'' then ([c], cs) else ([], s)
                               | [] \<Rightarrow> ([], s))
      in case scan_int_part s0 of
           None \<Rightarrow> None
         | Some (ds, s1) \<Rightarrow>
             (let (frac, s2) = scan_frac s1;
                  (ex, s3) = scan_exp s2
              in if frac = [] \<and> ex = []
                 then Some (JInt (if sign = [] then int (digits_val ds) else - int (digits_val ds)), s3)
                 else Some (JFloat (sign @ ds @ frac @ ex), s3)))"

definition strip_prefix :: "string \<Rightarrow> string \<Rightarrow> string option" where
  "strip_prefix w s = (if take (length w) s = w then Some (drop (length w) s) else None)"

definition scan_literal :: "string \<Rightarrow> (json \<times> string) option" where
  "scan_literal s =
     (case strip_prefix ''null'' s of Some r \<Rightarrow> Some (JNull, r) | None \<Rightarrow>
      case strip_prefix ''true'' s of Some r \<Rightarrow> Some (JBool True, r) | None \<Rightarrow>
      case strip_prefix ''false'' s of Some r \<Rightarrow> Some (JBool False, r) | None \<Rightarrow>
      case scan_number s of Some r \<Rightarrow> Some r | None \<Rightarrow>
      case strip_prefix ''NaN'' s of Some r \<Rightarrow> Some (JFloat ''NaN'', r) | None \<Rightarrow>
      case strip_prefix ''Infinity'' s of Some r \<Rightarrow> Some (JFloat ''Infinity'', r) | None \<Rightarrow>
      case strip_prefix ''-Infinity'' s of Some r \<Rightarrow> Some (JFloat ''-Infinity'', r) | None \<Rightarrow>
      None)"

fun scan_once :: "nat \<Rightarrow> string \<Rightarrow> (json \<times> string) option"
  and scan_array :: "nat \<Rightarrow> string \<Rightarrow> json list \<Rightarrow> (json list \<times> string) option"
  and scan_object :: "nat \<Rightarrow> string \<Rightarrow> (string \<times> json) list \<Rightarrow> ((string \<times> json) list \<times> string) option"
where
  "scan_once 0 s = None"
| "scan_once (Suc n) [] = None"
| "scan_once (Suc n) (c # cs) =
     (if c = CHR ''\"'' then
        (case scanstring cs [] of None \<Rightarrow> None | Some (t, r) \<Rightarrow> Some (JStr t, r))
      else if c = CHR ''{'' then
        (case skip_ws cs of
           [] \<Rightarrow> None
         | d # ds \<Rightarrow>
             if d = CHR ''}'' then Some (JObj [], ds)
             else (case scan_object n (d # ds) [] of
                     None \<Rightarrow> None
                   | Some (kvs, r) \<Rightarrow> Some (JObj kvs, r)))
      else if c = CHR ''['' then
        (case skip_ws cs of
           [] \<Rightarrow> None
         | d # ds \<Rightarrow>
             if d = CHR '']'' then Some (JArr [], ds)
             else (case scan_array n (d # ds) [] of
                     None \<Rightarrow> None
                   | Some (xs, r) \<Rightarrow> Some (JArr xs, r)))
      else scan_literal (c # cs))"
| "scan_array 0 s acc = None"
| "scan_array (Suc n) s acc =
     (case scan_once n s of
        None \<Rightarrow> None
      | Some (v, r) \<Rightarrow>
          (case skip_ws r of
             [] \<Rightarrow> None
           | d # ds \<Rightarrow>
               if d = CHR '']'' then Some (acc @ [v], ds)
               else if d = CHR '','' then scan_array n (skip_ws ds) (acc @ [v])
               else None))"
| "scan_object 0 s acc = None"
| "scan_object (Suc n) s acc =
     (case s of
        [] \<Rightarrow> None
      | q # qs \<Rightarrow>
          if q \<noteq> CHR ''\"'' then None
          else
            (case scanstring qs [] of
               None \<Rightarrow> None
             | Some (k, r) \<Rightarrow>
                 (case skip_ws r of
                    [] \<Rightarrow> None
                  | c # cs \<Rightarrow>
                      if c \<noteq> CHR '':'' then None
                      else
                        (case scan_once n (skip_ws cs) of
                           None \<Rightarrow> None
                         | Some (v, r') \<Rightarrow>
                             (case skip_ws r' of
                                [] \<Rightarrow> None
                              | d # ds \<Rightarrow>
                                  if d = CHR ''}'' then Some (dict_set acc k v, ds)
                                  else if d = CHR '','' then scan_object n (skip_ws ds) (dict_set acc k v)
                                  else None)))))"

definition loads :: "string \<Rightarrow> json option" where
  "loads s =
     (case scan_once (2 * length s + 2) (skip_ws s) of
        None \<Rightarrow> None
      | Some (v, r) \<Rightarrow> if skip_ws r = [] then Some v else None)"

section \<open>Python's \<^verbatim>\<open>repr\<close>, \<^verbatim>\<open>str\<close> and truth values\<close>

definition printable :: "char \<Rightarrow> bool" where
  "printable c =
     (let n = (of_char c :: nat) in \<not> (n < 32 \<or> (127 \<le> n \<and> n \<le> 160) \<or> n = 173))"

definition repr_char :: "char \<Rightarrow> char \<Rightarrow> string" where
  "repr_char q c =
     (let n = (of_char c :: nat) in
      if c = CHR 0x5C then [CHR 0x5C, CHR 0x5C]
      else if c = q then [CHR 0x5C, q]
      else if c = CHR 0x09 then [CHR 0x5C, CHR ''t'']
      else if c = CHR 0x0A then [CHR 0x5C, CHR ''n'']
      else if c = CHR 0x0D then [CHR 0x5C, CHR ''r'']
      else if \<not> printable c then [CHR 0x5C, CHR ''x'', hex_char (n div 16), hex_char (n mod 16)]
      else [c])"

definition repr_str :: "string \<Rightarrow> string" where
  "repr_str s =
     (let q = (if CHR 0x27 \<in> set s \<and> CHR ''\"'' \<notin> set s then CHR ''\"'' else CHR 0x27)
      in [q] @ concat (map (repr_char q) s) @ [q])"

fun repr :: "json \<Rightarrow> string" where
  "repr JNull = ''None''"
| "repr (JBool b) = (if b then ''True'' else ''False'')"
| "repr (JInt i) = int_str i"
| "repr (JFloat t) = t"
| "repr (JStr s) = repr_str s"
| "repr (JArr xs) = ''['' @ join '', '' (map repr xs) @ '']''"
| "repr (JObj kvs) =
     ''{'' @ join '', '' (map (\<lambda>(k, v). repr_str k @ '': '' @ repr v) kvs) @ ''}''"

definition str :: "json \<Rightarrow> string" where
  "str v = (case v of JStr s \<Rightarrow> s | _ \<Rightarrow> repr v)"

text \<open>
  \<^verbatim>\<open>bool(x)\<close>. A float is zero when its mantissa has no digit other than 0
  (underflow of a literal to zero is outside the model).
\<close>

definition float_nonzero :: "string \<Rightarrow> bool" where
  "float_nonzero t =
     (\<exists>c \<in> set (takeWhile (\<lambda>c. c \<noteq> CHR ''e'' \<and> c \<noteq> CHR ''E'') t).
        c \<noteq> CHR ''0'' \<and> c \<noteq> CHR ''.'' \<and> c \<noteq> CHR ''-'')"

fun truthy :: "json \<Rightarrow> bool" where
  "truthy JNull = False"
| "truthy (JBool b) = b"
| "truthy (JInt i) = (i \<noteq> 0)"
| "truthy (JFloat t) = float_nonzero t"
| "truthy (JStr s) = (s \<noteq> [])"
| "truthy (JArr xs) = (xs \<noteq> [])"
| "truthy (JObj kvs) = (kvs \<noteq> [])"

definition truthy_opt :: "json option \<Rightarrow> bool" where
  "truthy_opt x = (case x of None \<Rightarrow> False | Some v \<Rightarrow> truthy v)"

section \<open>The exercise catalog\<close>

record check =
  expr :: string
  equals :: json

datatype tests =
    Stdout string
  | StdoutWithPreset string string
  | Eval "check list"
  | OtherType string

record exercise =
  ex_id :: string
  ex_title :: string
  prompt :: string
  starter_code :: string
  ex_tests :: tests

record chapter_entry =
  ch_id :: string
  ch_title :: string
  description :: string
  exercises :: "exercise list"

definition CHAPTERS :: "chapter_entry list" where
  "CHAPTERS =
     [\<lparr>ch_id = ''basics'', ch_title = ''Python Basics'',
       description = ''Print, variables, and simple expressions'',
       exercises =
         [\<lparr>ex_id = ''print-hello'', ex_title = ''Print Hello World'',
           prompt = ''Write code that prints exactly: Hello, World!'',
           starter_code = ''# Write a print statement below'' @ newline,
           ex_tests = Stdout (''Hello, World!'' @ newline)\<rparr>,
          \<lparr>ex_id = ''variables-sum'', ex_title = ''Variables and Sum'',
           prompt = ''Create two variables a = 5 and b = 7 and print their sum.'',
           starter_code = ''# Define a and b, then print their sum'' @ newline,
           ex_tests = Stdout (''12'' @ newline)\<rparr>]\<rparr>,
      \<lparr>ch_id = ''functions'', ch_title = ''Functions'',
       description = ''Define and call functions'',
       exercises =
         [\<lparr>ex_id = ''def-add'', ex_title = ''Define add(a, b)'',
           prompt = ''Define a function add(a, b) that returns the sum of a and b.'',
           starter_code = ''# Define add(a, b) below'' @ newline,
           ex_tests = Eval
             [\<lparr>expr = ''add(2, 3)'', equals = JInt 5\<rparr>,
              \<lparr>expr = ''add(-1, 1)'', equals = JInt 0\<rparr>,
              \<lparr>expr = ''add(10, 5)'', equals = JInt 15\<rparr>]\<rparr>,
          \<lparr>ex_id = ''def-greet'', ex_title = ''Function greet(name)'',
           prompt = ''Write a function greet(name) that returns 'Hello, <name>!'.'',
           starter_code = ''# Define greet(name) below'' @ newline,
           ex_tests = Eval
             [\<lparr>expr = ''greet('Ada')'', equals = JStr ''Hello, Ada!''\<rparr>,
              \<lparr>expr = ''greet('Bob')'', equals = JStr ''Hello, Bob!''\<rparr>]\<rparr>]\<rparr>,
      \<lparr>ch_id = ''loops'', ch_title = ''Loops'',
       description = ''For and while loops'',
       exercises =
         [\<lparr>ex_id = ''sum-1-to-n'', ex_title = ''Sum 1..n'',
           prompt = ''Read n from a variable and print the sum from 1 to n (inclusive). Assume n = 5.'',
           starter_code = ''# Set n and print the sum from 1 to n'' @ newline @
             ''# Example: if n = 5, output should be 15'' @ newline,
           ex_tests = StdoutWithPreset (''n = 5'' @ newline) (''15'' @ newline)\<rparr>]\<rparr>]"

record EvaluateRequest =
  req_chapter_id :: string
  req_exercise_id :: string
  req_code :: string

datatype details = OutDetails exec_result | ResDetails "(string \<times> json) list"

record EvaluateResult =
  passed :: bool
  feedback :: string
  details :: details

fun find_in_exercises :: "exercise list \<Rightarrow> string \<Rightarrow> exercise option" where
  "find_in_exercises [] e = None"
| "find_in_exercises (ex # exs) e = (if ex_id ex = e then Some ex else find_in_exercises exs e)"

fun find_exercise :: "chapter_entry list \<Rightarrow> string \<Rightarrow> string \<Rightarrow> exercise option" where
  "find_exercise [] c e = None"
| "find_exercise (ch # chs) c e =
     (if ch_id ch = c then
        (case find_in_exercises (exercises ch) e of
           Some ex \<Rightarrow> Some ex
         | None \<Rightarrow> find_exercise chs c e)
      else find_exercise chs c e)"

section \<open>The harness\<close>

definition check_json :: "check \<Rightarrow> json" where
  "check_json c = JObj [(''expr'', JStr (expr c)), (''equals'', equals c)]"

text \<open>
  The program text that \<^verbatim>\<open>run_user_code_and_eval\<close> builds: the candidate's code as
  the \<^verbatim>\<open>repr\<close> of a string, the checks as the text \<^verbatim>\<open>json.dumps\<close> gives.
\<close>

definition harness :: "string \<Rightarrow> check list \<Rightarrow> string" where
  "harness src checks =
     newline @
     ''import json'' @ newline @
     ''results = []'' @ newline @
     ''ns = {}'' @ newline @
     ''try:'' @ newline @
     ''    exec(compile('' @ repr_str src @ '', '<user>', 'exec'), ns, ns)'' @ newline @
     ''    ok = True'' @ newline @
     ''    for item in '' @ dumps (JArr (map check_json checks)) @ '':'' @ newline @
     ''        expr = item.get('expr')'' @ newline @
     ''        expected = item.get('equals')'' @ newline @
     ''        try:'' @ newline @
     ''            val = eval(expr, ns, ns)'' @ newline @
     ''            eq = (val == expected)'' @ newline @
     ''            results.append({'expr': expr, 'value': val, 'expected': expected, 'pass': eq})'' @ newline @
     ''            if not eq:'' @ newline @
     ''                ok = False'' @ newline @
     ''        except Exception as e:'' @ newline @
     ''            ok = False'' @ newline @
     ''            results.append({'expr': expr, 'error': str(e), 'pass': False})'' @ newline @
     ''    print(json.dumps({'ok': ok, 'results': results}))'' @ newline @
     ''except Exception as e:'' @ newline @
     ''    print(json.dumps({'ok': False, 'error': str(e), 'results': []}))'' @ newline"

subsection \<open>What the harness does when it runs\<close>

text \<open>
  The candidate's code is opaque; what it does in one run is given by its observable
  steps. Loading it (\<^verbatim>\<open>exec\<close>) either returns, raises an \<^verbatim>\<open>Exception\<close>, or ends the
  process (an exit, a fatal error, or no end within the timeout). Evaluating the
  expression of the check at some position does the same; when it returns, the value
  is one that \<^verbatim>\<open>json.dumps\<close> accepts or an object of a type it rejects, and the
  comparison with the expected value has given a truth value. Each step carries the
  text it wrote to standard output. The candidate is taken not to replace the
  harness's own names (\<^verbatim>\<open>json\<close>, \<^verbatim>\<open>print\<close>, \<^verbatim>\<open>results\<close>).
\<close>

datatype pyval = Serializable json | Unserializable string

datatype load_outcome =
    Loaded string
  | LoadRaises string string
  | LoadAborts proc_outcome

datatype eval_outcome =
    Returns pyval bool string
  | Raises string string
  | EvalAborts proc_outcome

record candidate =
  on_load :: load_outcome
  on_eval :: "nat \<Rightarrow> string \<Rightarrow> json \<Rightarrow> eval_outcome"
  err_text :: string

datatype check_result =
    ValueResult string pyval json bool
  | ErrorResult string string

fun cr_expr :: "check_result \<Rightarrow> string" where
  "cr_expr (ValueResult e v x p) = e"
| "cr_expr (ErrorResult e m) = e"


fun cr_is_error :: "check_result \<Rightarrow> bool" where
  "cr_is_error (ValueResult e v x p) = False"
| "cr_is_error (ErrorResult e m) = True"

text \<open>The loop over the checks: \<^verbatim>\<open>ok\<close>, \<^verbatim>\<open>results\<close> and the text printed so far.\<close>

fun run_checks ::
  "candidate \<Rightarrow> nat \<Rightarrow> check list \<Rightarrow> bool \<Rightarrow> check_result list \<Rightarrow> string \<Rightarrow>
   proc_outcome + (bool \<times> check_result list \<times> string)" where
  "run_checks cand i [] ok results out = Inr (ok, results, out)"
| "run_checks cand i (c # cs) ok results out =
     (case on_eval cand i (expr c) (equals c) of
        Returns v eq txt \<Rightarrow>
          run_checks cand (Suc i) cs (if \<not> eq then False else ok)
            (results @ [ValueResult (expr c) v (equals c) eq]) (out @ txt)
      | Raises msg txt \<Rightarrow>
          run_checks cand (Suc i) cs False (results @ [ErrorResult (expr c) msg]) (out @ txt)
      | EvalAborts oc \<Rightarrow> Inl oc)"

text \<open>
  The checks reach the harness as the text \<^verbatim>\<open>json.dumps\<close> gives, read as a Python
  expression: \<^verbatim>\<open>null\<close>, \<^verbatim>\<open>true\<close>, \<^verbatim>\<open>false\<close>, \<^verbatim>\<open>NaN\<close> and \<^verbatim>\<open>Infinity\<close> are names
  Python does not know, and the first of them raises \<^verbatim>\<open>NameError\<close>.
\<close>

fun first_bad_name :: "json \<Rightarrow> string option"
  and first_bad_name_list :: "json list \<Rightarrow> string option"
  and first_bad_name_items :: "(string \<times> json) list \<Rightarrow> string option" where
  "first_bad_name JNull = Some ''null''"
| "first_bad_name (JBool b) = Some (if b then ''true'' else ''false'')"
| "first_bad_name (JInt i) = None"
| "first_bad_name (JFloat t) =
     (if t = ''NaN'' then Some ''NaN''
      else if t = ''Infinity'' \<or> t = ''-Infinity'' then Some ''Infinity''
      else None)"
| "first_bad_name (JStr s) = None"
| "first_bad_name (JArr xs) = first_bad_name_list xs"
| "first_bad_name (JObj kvs) = first_bad_name_items kvs"
| "first_bad_name_list [] = None"
| "first_bad_name_list (x # xs) =
     (case first_bad_name x of Some n \<Rightarrow> Some n | None \<Rightarrow> first_bad_name_list xs)"
| "first_bad_name_items [] = None"
| "first_bad_name_items (kv # kvs) =
     (case first_bad_name (snd kv) of Some n \<Rightarrow> Some n | None \<Rightarrow> first_bad_name_items kvs)"

definition to_json :: "pyval \<Rightarrow> string + json" where
  "to_json v =
     (case v of
        Serializable j \<Rightarrow> Inr j
      | Unserializable tn \<Rightarrow> Inl (''Object of type '' @ tn @ '' is not JSON serializable''))"

definition result_json :: "check_result \<Rightarrow> string + json" where
  "result_json r =
     (case r of
        ValueResult e v x p \<Rightarrow>
          (case to_json v of
             Inl m \<Rightarrow> Inl m
           | Inr j \<Rightarrow> Inr (JObj [(''expr'', JStr e), (''value'', j), (''expected'', x), (''pass'', JBool p)]))
      | ErrorResult e m \<Rightarrow>
          Inr (JObj [(''expr'', JStr e), (''error'', JStr m), (''pass'', JBool False)]))"

fun results_json :: "check_result list \<Rightarrow> string + json list" where
  "results_json [] = Inr []"
| "results_json (r # rs) =
     (case result_json r of
        Inl m \<Rightarrow> Inl m
      | Inr j \<Rightarrow> (case results_json rs of Inl m \<Rightarrow> Inl m | Inr js \<Rightarrow> Inr (j # js)))"

definition fail_payload :: "string \<Rightarrow> json" where
  "fail_payload msg = JObj [(''ok'', JBool False), (''error'', JStr msg), (''results'', JArr [])]"

definition ok_payload :: "bool \<Rightarrow> json list \<Rightarrow> json" where
  "ok_payload ok js = JObj [(''ok'', JBool ok), (''results'', JArr js)]"

text \<open>
  The payload the harness prints, or the way the process ended before printing.
  Everything between \<^verbatim>\<open>try\<close> and the first \<^verbatim>\<open>print\<close> is under the outer handler:
  loading, reading the checks, and \<^verbatim>\<open>json.dumps\<close> of the results.
\<close>

definition harness_payload :: "candidate \<Rightarrow> check list \<Rightarrow> proc_outcome + (json \<times> string)" where
  "harness_payload cand checks =
     (case on_load cand of
        LoadAborts oc \<Rightarrow> Inl oc
      | LoadRaises msg txt \<Rightarrow> Inr (fail_payload msg, txt)
      | Loaded txt \<Rightarrow>
          (case first_bad_name (JArr (map check_json checks)) of
             Some nm \<Rightarrow> Inr (fail_payload (''name '' @ [CHR 0x27] @ nm @ [CHR 0x27] @ '' is not defined''), txt)
           | None \<Rightarrow>
               (case run_checks cand 0 checks True [] txt of
                  Inl oc \<Rightarrow> Inl oc
                | Inr (ok, results, out) \<Rightarrow>
                    (case results_json results of
                       Inl m \<Rightarrow> Inr (fail_payload m, out)
                     | Inr js \<Rightarrow> Inr (ok_payload ok js, out)))))"

definition harness_run :: "candidate \<Rightarrow> check list \<Rightarrow> proc_outcome" where
  "harness_run cand checks =
     (case harness_payload cand checks of
        Inl oc \<Rightarrow> oc
      | Inr (payload, out) \<Rightarrow> Completed 0 (out @ dumps payload @ newline) (err_text cand))"

section \<open>The dispatcher\<close>

definition run_user_code_and_eval ::
  "os_env \<Rightarrow> files \<Rightarrow> string \<Rightarrow> check list \<Rightarrow> nat \<Rightarrow> (error + (string \<times> json) list) \<times> files" where
  "run_user_code_and_eval env fs src checks timeout =
     (case run_user_code_capture_stdout env fs (harness src checks) [] timeout of
        (Inl e, fs') \<Rightarrow> (Inl e, fs')
      | (Inr out, fs') \<Rightarrow>
          (let data =
             (case loads (if stdout out = [] then ''{}'' else stdout out) of
                Some d \<Rightarrow> d
              | None \<Rightarrow>
                  JObj [(''ok'', JBool False),
                        (''error'', JStr (if stderr out = [] then ''Invalid output'' else stderr out))])
           in case data of
                JObj kvs \<Rightarrow>
                  (Inr (dict_set (dict_set kvs ''stderr'' (JStr (stderr out)))
                          ''returncode'' (JInt (returncode out))), fs')
              | _ \<Rightarrow> (Inl (TypeError ''object does not support item assignment''), fs')))"

text \<open>\<^verbatim>\<open>for r in res.get("results", []) or []\<close>: what the loop iterates over.\<close>

definition iter_results :: "json option \<Rightarrow> error + json list" where
  "iter_results x =
     (case x of
        None \<Rightarrow> Inr []
      | Some v \<Rightarrow>
          if \<not> truthy v then Inr []
          else (case v of
                  JArr xs \<Rightarrow> Inr xs
                | JObj kvs \<Rightarrow> Inr (map (\<lambda>kv. JStr (fst kv)) kvs)
                | JStr t \<Rightarrow> Inr (map (\<lambda>c. JStr [c]) t)
                | _ \<Rightarrow> Inl (TypeError ''object is not iterable'')))"

definition check_msg :: "(string \<times> json) list \<Rightarrow> error + string" where
  "check_msg r =
     (if dict_get r ''error'' \<noteq> None then
        (case dict_get r ''expr'' of
           None \<Rightarrow> Inl (KeyError ''expr'')
         | Some e \<Rightarrow>
             (case dict_get r ''error'' of
                None \<Rightarrow> Inl (KeyError ''error'')
              | Some m \<Rightarrow> Inr (str e @ '': error '' @ str m)))
      else
        (case dict_get r ''expr'' of
           None \<Rightarrow> Inl (KeyError ''expr'')
         | Some e \<Rightarrow>
             (case dict_get r ''expected'' of
                None \<Rightarrow> Inl (KeyError ''expected'')
              | Some x \<Rightarrow>
                  (case dict_get r ''value'' of
                     None \<Rightarrow> Inl (KeyError ''value'')
                   | Some v \<Rightarrow> Inr (str e @ '': expected '' @ repr x @ '', got '' @ repr v)))))"

fun collect_msgs :: "json list \<Rightarrow> string list \<Rightarrow> error + string list" where
  "collect_msgs [] msgs = Inr msgs"
| "collect_msgs (r # rs) msgs =
     (case r of
        JObj kvs \<Rightarrow>
          if \<not> truthy_opt (dict_get kvs ''pass'') then
            (case check_msg kvs of
               Inl e \<Rightarrow> Inl e
             | Inr m \<Rightarrow> collect_msgs rs (msgs @ [m]))
          else collect_msgs rs msgs
      | _ \<Rightarrow> Inl (AttributeError ''get''))"

definition eval_feedback :: "(string \<times> json) list \<Rightarrow> error + string" where
  "eval_feedback res =
     (case iter_results (dict_get res ''results'') of
        Inl e \<Rightarrow> Inl e
      | Inr rs \<Rightarrow>
          (case collect_msgs rs [] of
             Inl e \<Rightarrow> Inl e
           | Inr msgs0 \<Rightarrow>
               (let msgs = (if msgs0 = [] \<and> truthy_opt (dict_get res ''error'')
                            then (case dict_get res ''error'' of Some m \<Rightarrow> [str m] | None \<Rightarrow> msgs0)
                            else msgs0)
                in Inr (if msgs \<noteq> [] then join ''; '' msgs else ''Some tests failed.''))))"

definition stdout_feedback :: "string \<Rightarrow> exec_result \<Rightarrow> string" where
  "stdout_feedback expected out =
     ''Expected output: '' @ repr_str expected @ '', but got: '' @ repr_str (stdout out) @ ''. '' @
     (if stderr out \<noteq> [] then ''Error: '' @ stderr out else [])"

record state =
  chapters :: "chapter_entry list"
  temp_files :: files

definition grade_stdout ::
  "string \<Rightarrow> string \<Rightarrow> (error + exec_result) \<times> files \<Rightarrow> state \<Rightarrow> (error + EvaluateResult) \<times> state" where
  "grade_stdout praise expected r st =
     (case r of
        (Inl e, fs') \<Rightarrow> (Inl e, st\<lparr>temp_files := fs'\<rparr>)
      | (Inr out, fs') \<Rightarrow>
          (let ok = (returncode out = 0 \<and> stdout out = expected);
               fb = (if ok then praise else stdout_feedback expected out)
           in (Inr \<lparr>passed = ok, feedback = fb, details = OutDetails out\<rparr>,
               st\<lparr>temp_files := fs'\<rparr>)))"

definition evaluate :: "os_env \<Rightarrow> state \<Rightarrow> EvaluateRequest \<Rightarrow> (error + EvaluateResult) \<times> state" where
  "evaluate env st req =
     (case find_exercise (chapters st) (req_chapter_id req) (req_exercise_id req) of
        None \<Rightarrow> (Inl (HTTP_404 ''Exercise not found''), st)
      | Some ex \<Rightarrow>
          (case ex_tests ex of
             Stdout expected \<Rightarrow>
               grade_stdout ''Great job!'' expected
                 (run_user_code_capture_stdout env (temp_files st) (req_code req) [] timeout_default) st
           | StdoutWithPreset preset expected \<Rightarrow>
               grade_stdout ''Nice!'' expected
                 (run_user_code_capture_stdout env (temp_files st) (req_code req) preset timeout_default) st
           | Eval checks \<Rightarrow>
               (case run_user_code_and_eval env (temp_files st) (req_code req) checks timeout_default of
                  (Inl e, fs') \<Rightarrow> (Inl e, st\<lparr>temp_files := fs'\<rparr>)
                | (Inr res, fs') \<Rightarrow>
                    (let ok = truthy_opt (dict_get res ''ok'')
                     in if ok then
                          (Inr \<lparr>passed = ok, feedback = ''All tests passed!'', details = ResDetails res\<rparr>,
                           st\<lparr>temp_files := fs'\<rparr>)
                        else
                          (case eval_feedback res of
                             Inl e \<Rightarrow> (Inl e, st\<lparr>temp_files := fs'\<rparr>)
                           | Inr fb \<Rightarrow>
                               (Inr \<lparr>passed = ok, feedback = fb, details = ResDetails res\<rparr>,
                                st\<lparr>temp_files := fs'\<rparr>))))
           | OtherType t \<Rightarrow> (Inl (HTTP_400 ''Unknown test type''), st)))"

section \<open>Concrete runs\<close>

text \<open>
  Environments, requests and candidates at which the theorems below are instantiated.
\<close>

definition env_timeout :: os_env where
  "env_timeout = \<lparr>tmp_name = ''/tmp/tmpk3v9.py'', create_ok = True, write_ok = True,
     spawn = (\<lambda>prog t. TimeoutExpired), child_files = (\<lambda>fs. fs)\<rparr>"


definition env_of :: "proc_outcome \<Rightarrow> os_env" where
  "env_of oc = \<lparr>tmp_name = ''/tmp/tmpk3v9.py'', create_ok = True, write_ok = True,
     spawn = (\<lambda>prog t. oc), child_files = (\<lambda>fs. fs)\<rparr>"

definition catalog_state :: state where
  "catalog_state = \<lparr>chapters = CHAPTERS, temp_files = Map.empty\<rparr>"

definition req_hello :: EvaluateRequest where
  "req_hello = \<lparr>req_chapter_id = ''basics'', req_exercise_id = ''print-hello'',
     req_code = ''print('Hello, World!', end=str())''\<rparr>"

definition ex_hello :: exercise where
  "ex_hello = \<lparr>ex_id = ''print-hello'', ex_title = ''Print Hello World'',
           prompt = ''Write code that prints exactly: Hello, World!'',
           starter_code = ''# Write a print statement below'' @ newline,
           ex_tests = Stdout (''Hello, World!'' @ newline)\<rparr>"

definition stdout_ok_true :: string where
  "stdout_ok_true = ''{\"ok\": true, \"results\": []}'' @ newline"

definition req_add :: EvaluateRequest where
  "req_add = \<lparr>req_chapter_id = ''functions'', req_exercise_id = ''def-add'',
     req_code = ''def add(a, b): return a + b''\<rparr>"

definition add_checks :: "check list" where
  "add_checks =
     [\<lparr>expr = ''add(2, 3)'', equals = JInt 5\<rparr>,
      \<lparr>expr = ''add(-1, 1)'', equals = JInt 0\<rparr>,
      \<lparr>expr = ''add(10, 5)'', equals = JInt 15\<rparr>]"

definition ex_add :: exercise where
  "ex_add = \<lparr>ex_id = ''def-add'', ex_title = ''Define add(a, b)'',
     prompt = ''Define a function add(a, b) that returns the sum of a and b.'',
     starter_code = ''# Define add(a, b) below'' @ newline,
     ex_tests = Eval add_checks\<rparr>"





definition empty_checks_state :: state where
  "empty_checks_state =
     \<lparr>chapters =
        [\<lparr>ch_id = ''drafts'', ch_title = ''Drafts'', description = ''Exercises without checks'',
          exercises =
            [\<lparr>ex_id = ''no-checks'', ex_title = ''No checks yet'', prompt = ''Write anything.'',
              starter_code = [], ex_tests = Eval []\<rparr>]\<rparr>],
      temp_files = Map.empty\<rparr>"

definition ex_no_checks :: exercise where
  "ex_no_checks = \<lparr>ex_id = ''no-checks'', ex_title = ''No checks yet'', prompt = ''Write anything.'',
              starter_code = [], ex_tests = Eval []\<rparr>"

definition req_no_checks :: EvaluateRequest where
  "req_no_checks = \<lparr>req_chapter_id = ''drafts'', req_exercise_id = ''no-checks'',
     req_code = ''print('hi')''\<rparr>"

definition cand_silent :: candidate where
  "cand_silent = \<lparr>on_load = Loaded [], on_eval = (\<lambda>i e x. Raises ''never evaluated'' []),
     err_text = []\<rparr>"

definition cand_prints :: candidate where
  "cand_prints = \<lparr>on_load = Loaded (''hi'' @ newline),
     on_eval = (\<lambda>i e x. Returns (Serializable x) True []), err_text = []\<rparr>"

definition can_start_value :: "char \<Rightarrow> bool" where
  "can_start_value c = (c \<in> set ''\"{[-ntfNI'' \<or> is_digit c)"

definition cand_stray :: candidate where
  "cand_stray = \<lparr>on_load = Loaded (''debug'' @ newline),
     on_eval = (\<lambda>i e x. Returns (Serializable x) True []), err_text = []\<rparr>"

definition add_results :: "json list" where
  "add_results =
     [JObj [(''expr'', JStr ''add(2, 3)''), (''value'', JInt 5), (''expected'', JInt 5), (''pass'', JBool True)],
      JObj [(''expr'', JStr ''add(-1, 1)''), (''value'', JInt 0), (''expected'', JInt 0), (''pass'', JBool True)],
      JObj [(''expr'', JStr ''add(10, 5)''), (''value'', JInt 15), (''expected'', JInt 15), (''pass'', JBool True)]]"

section \<open>Properties of the runner\<close>


lemma remove_quietly_other: "q \<noteq> p \<Longrightarrow> remove_quietly fs p q = fs q"
  by (simp add: remove_quietly_def os_remove_def split: option.splits)

text \<open>
  Claim C4. When \<^verbatim>\<open>subprocess.run\<close> reports that the timeout elapsed, the runner
  returns a result (it does not raise): exit status 124, empty standard output and
  the message \<^verbatim>\<open>Execution timed out\<close> on standard error.
\<close>

theorem timeout_returns_sentinel:
  assumes "create_ok env" and "write_ok env"
    and "spawn env (preset @ newline @ code) t = TimeoutExpired"
  shows "fst (run_user_code_capture_stdout env fs code preset t) =
           Inr \<lparr>returncode = 124, stdout = [], stderr = ''Execution timed out''\<rparr>"
  using assms by (simp add: run_user_code_capture_stdout_def Let_def)

theorem timeout_returns_sentinel_witness:
  "create_ok env_timeout \<and> write_ok env_timeout \<and>
   spawn env_timeout (''n = 5'' @ newline @ ''while True: pass'') 2000 = TimeoutExpired \<and>
   fst (run_user_code_capture_stdout env_timeout Map.empty ''while True: pass'' ''n = 5'' 2000) =
     Inr \<lparr>returncode = 124, stdout = [], stderr = ''Execution timed out''\<rparr>"
  using timeout_returns_sentinel [of env_timeout "''n = 5''" "''while True: pass''" 2000 Map.empty]
  by (simp add: env_timeout_def)



section \<open>Grading by standard output\<close>

lemma runner_result:
  "create_ok env \<Longrightarrow> write_ok env \<Longrightarrow>
   fst (run_user_code_capture_stdout env fs src preset t) =
     (case spawn env (preset @ newline @ src) t of
        Completed rc out err \<Rightarrow> Inr \<lparr>returncode = rc, stdout = out, stderr = err\<rparr>
      | TimeoutExpired \<Rightarrow> Inr \<lparr>returncode = 124, stdout = [], stderr = ''Execution timed out''\<rparr>
      | SpawnError m \<Rightarrow> Inl (SpawnFailed m))"
  by (simp add: run_user_code_capture_stdout_def Let_def)

text \<open>
  Claim C2. For an exercise graded by its standard output, with or without a preset,
  whenever the runner delivers a result the grade passes exactly when the exit status
  is 0 and the captured output equals the expected string, character for character.
  At \<^verbatim>\<open>print-hello\<close>, output without the final line feed fails.
\<close>

theorem stdout_grade_exact:
  assumes "find_exercise (chapters st) (req_chapter_id req) (req_exercise_id req) = Some ex"
    and "ex_tests ex = Stdout expected \<and> preset = [] \<or> ex_tests ex = StdoutWithPreset preset expected"
    and "fst (run_user_code_capture_stdout env (temp_files st) (req_code req) preset timeout_default) = Inr out"
  shows "\<exists>res. fst (evaluate env st req) = Inr res \<and> details res = OutDetails out \<and>
           (passed res \<longleftrightarrow> returncode out = 0 \<and> stdout out = expected)"
  using assms
  by (auto simp: evaluate_def grade_stdout_def Let_def split: prod.splits sum.splits)

theorem stdout_grade_exact_witness:
  "find_exercise (chapters catalog_state) (req_chapter_id req_hello) (req_exercise_id req_hello) = Some ex_hello \<and>
   ex_tests ex_hello = Stdout (''Hello, World!'' @ newline) \<and>
   fst (run_user_code_capture_stdout (env_of (Completed 0 ''Hello, World!'' [])) (temp_files catalog_state)
          (req_code req_hello) [] timeout_default) =
     Inr \<lparr>returncode = 0, stdout = ''Hello, World!'', stderr = []\<rparr> \<and>
   (\<exists>res. fst (evaluate (env_of (Completed 0 ''Hello, World!'' [])) catalog_state req_hello) = Inr res \<and>
          \<not> passed res)"
proof -
  have h1: "find_exercise (chapters catalog_state) (req_chapter_id req_hello) (req_exercise_id req_hello) = Some ex_hello"
    by (simp add: catalog_state_def req_hello_def ex_hello_def CHAPTERS_def)
  have h2: "ex_tests ex_hello = Stdout (''Hello, World!'' @ newline) \<and> ([]::string) = [] \<or>
            ex_tests ex_hello = StdoutWithPreset [] (''Hello, World!'' @ newline)"
    by (simp add: ex_hello_def)
  have h3: "fst (run_user_code_capture_stdout (env_of (Completed 0 ''Hello, World!'' [])) (temp_files catalog_state)
          (req_code req_hello) [] timeout_default) =
     Inr \<lparr>returncode = 0, stdout = ''Hello, World!'', stderr = []\<rparr>"
    by (simp add: runner_result env_of_def)
  from stdout_grade_exact [OF h1 h2 h3] obtain res where
    "fst (evaluate (env_of (Completed 0 ''Hello, World!'' [])) catalog_state req_hello) = Inr res"
    and "passed res \<longleftrightarrow> returncode \<lparr>returncode = 0, stdout = ''Hello, World!'', stderr = []\<rparr> = 0 \<and>
       stdout \<lparr>returncode = 0, stdout = ''Hello, World!'', stderr = []\<rparr> = ''Hello, World!'' @ newline"
    by blast
  then have "\<exists>res. fst (evaluate (env_of (Completed 0 ''Hello, World!'' [])) catalog_state req_hello) = Inr res \<and> \<not> passed res"
    by (auto simp: newline_def)
  with h1 h2 h3 show ?thesis by (simp add: ex_hello_def)
qed

text \<open>
  Claim C8. The catalog is the same after \<^verbatim>\<open>evaluate\<close> as before it, whatever
  the request and whatever happens during the run; \<^verbatim>\<open>find_exercise\<close> only reads it.
\<close>

theorem catalog_unchanged:
  "chapters (snd (evaluate env st req)) = chapters st"
  by (simp add: evaluate_def grade_stdout_def Let_def
      split: option.splits tests.splits prod.splits sum.splits)

section \<open>Grading by evaluated checks\<close>


lemma dict_get_set_same: "dict_get (dict_set d k v) k = Some v"
  by (induction d) auto


lemma find_add:
  "find_exercise (chapters catalog_state) (req_chapter_id req_add) (req_exercise_id req_add) = Some ex_add"
  by (simp add: catalog_state_def req_add_def ex_add_def add_checks_def CHAPTERS_def)

lemma eval_data_obj:
  assumes "fst (run_user_code_capture_stdout env fs (harness src checks) [] t) = Inr out"
    and "loads (if stdout out = [] then ''{}'' else stdout out) = Some (JObj kvs)"
  shows "fst (run_user_code_and_eval env fs src checks t) =
     Inr (dict_set (dict_set kvs ''stderr'' (JStr (stderr out))) ''returncode'' (JInt (returncode out)))"
proof -
  obtain r fs' where rf: "run_user_code_capture_stdout env fs (harness src checks) [] t = (r, fs')"
    by (cases "run_user_code_capture_stdout env fs (harness src checks) [] t")
  with assms(1) have r: "r = Inr out" by simp
  show ?thesis
    unfolding run_user_code_and_eval_def rf r
    by (simp only: prod.case sum.case Let_def assms(2) option.case json.case fst_conv)
qed

lemma eval_data_none:
  assumes "fst (run_user_code_capture_stdout env fs (harness src checks) [] t) = Inr out"
    and "loads (if stdout out = [] then ''{}'' else stdout out) = None"
  shows "fst (run_user_code_and_eval env fs src checks t) =
     Inr [(''ok'', JBool False),
          (''error'', JStr (if stderr out = [] then ''Invalid output'' else stderr out)),
          (''stderr'', JStr (stderr out)), (''returncode'', JInt (returncode out))]"
proof -
  obtain r fs' where rf: "run_user_code_capture_stdout env fs (harness src checks) [] t = (r, fs')"
    by (cases "run_user_code_capture_stdout env fs (harness src checks) [] t")
  with assms(1) have r: "r = Inr out" by simp
  have ds: "dict_set (dict_set [(''ok'', JBool False), (''error'', JStr e)] ''stderr'' x) ''returncode'' y =
        [(''ok'', JBool False), (''error'', JStr e), (''stderr'', x), (''returncode'', y)]" for e x y
    by simp
  show ?thesis
    unfolding run_user_code_and_eval_def rf r
    by (simp only: prod.case sum.case Let_def assms(2) option.case json.case fst_conv ds)
qed

lemma evaluate_eval:
  assumes "find_exercise (chapters st) (req_chapter_id req) (req_exercise_id req) = Some ex"
    and "ex_tests ex = Eval checks"
    and "fst (run_user_code_and_eval env (temp_files st) (req_code req) checks timeout_default) = Inr res"
  shows "fst (evaluate env st req) =
     (if truthy_opt (dict_get res ''ok'')
      then Inr \<lparr>passed = True, feedback = ''All tests passed!'', details = ResDetails res\<rparr>
      else (case eval_feedback res of
              Inl e \<Rightarrow> Inl e
            | Inr fb \<Rightarrow> Inr \<lparr>passed = False, feedback = fb, details = ResDetails res\<rparr>))"
  using assms
  by (auto simp: evaluate_def Let_def split: prod.splits sum.splits)



subsection \<open>Missing and undecodable payloads\<close>

lemma feedback_parse_failure:
  assumes "e \<noteq> []"
  shows "eval_feedback [(''ok'', JBool False), (''error'', JStr e), (''stderr'', x), (''returncode'', y)] = Inr e"
  using assms by (simp add: eval_feedback_def iter_results_def truthy_opt_def str_def Let_def)


lemma evaluate_unparseable:
  assumes "find_exercise (chapters st) (req_chapter_id req) (req_exercise_id req) = Some ex"
    and "ex_tests ex = Eval checks"
    and "fst (run_user_code_capture_stdout env (temp_files st) (harness (req_code req) checks) []
           timeout_default) = Inr out"
    and "stdout out \<noteq> []" and "loads (stdout out) = None"
  shows "fst (evaluate env st req) =
              Inr \<lparr>passed = False,
                   feedback = (if stderr out = [] then ''Invalid output'' else stderr out),
                   details = ResDetails
                     [(''ok'', JBool False),
                      (''error'', JStr (if stderr out = [] then ''Invalid output'' else stderr out)),
                      (''stderr'', JStr (stderr out)), (''returncode'', JInt (returncode out))]\<rparr>"
proof -
  define e where "e = (if stderr out = [] then ''Invalid output'' else stderr out)"
  have ne: "e \<noteq> []" by (simp add: e_def)
  define res where "res = [(''ok'', JBool False), (''error'', JStr e),
     (''stderr'', JStr (stderr out)), (''returncode'', JInt (returncode out))]"
  from assms(4,5) have ld: "loads (if stdout out = [] then ''{}'' else stdout out) = None" by simp
  have r: "fst (run_user_code_and_eval env (temp_files st) (req_code req) checks timeout_default) = Inr res"
    using eval_data_none [OF assms(3) ld] by (simp only: res_def e_def)
  have ok: "\<not> truthy_opt (dict_get res ''ok'')" by (simp add: res_def truthy_opt_def)
  have fb: "eval_feedback res = Inr e" unfolding res_def by (rule feedback_parse_failure [OF ne])
  have "fst (evaluate env st req) = Inr \<lparr>passed = False, feedback = e, details = ResDetails res\<rparr>"
    using evaluate_eval [OF assms(1,2) r] ok fb by simp
  then show ?thesis by (simp only: res_def e_def)
qed





subsection \<open>Feedback of a failing grade\<close>














section \<open>Properties of the harness\<close>







subsection \<open>An exercise without checks\<close>

lemma dumps_ok_true: "dumps (ok_payload True []) @ newline = stdout_ok_true"
  by code_simp

lemma loads_ok_true:
  "loads stdout_ok_true = Some (JObj [(''ok'', JBool True), (''results'', JArr [])])"
  by code_simp

lemma stdout_ok_true_nonempty: "stdout_ok_true \<noteq> []"
  by (simp add: stdout_ok_true_def)

lemma harness_payload_no_checks:
  "on_load cand = Loaded wr \<Longrightarrow> harness_payload cand [] = Inr (ok_payload True [], wr)"
  by (simp add: harness_payload_def)

lemma find_no_checks:
  "find_exercise (chapters empty_checks_state) (req_chapter_id req_no_checks)
     (req_exercise_id req_no_checks) = Some ex_no_checks"
  by (simp add: empty_checks_state_def req_no_checks_def ex_no_checks_def)

text \<open>
  Claim C9, as the code has it. For an \<^verbatim>\<open>eval\<close> exercise without checks and a
  candidate that loads without raising and writes nothing to standard output, the
  harness prints \<^verbatim>\<open>ok\<close> true with no results, whatever evaluating an expression
  would have done, and \<^verbatim>\<open>evaluate\<close> returns a passing grade with the feedback
  \<^verbatim>\<open>All tests passed!\<close>.
\<close>

theorem empty_checks_pass:
  assumes "find_exercise (chapters st) (req_chapter_id req) (req_exercise_id req) = Some ex"
    and "ex_tests ex = Eval []"
    and "create_ok env" and "write_ok env"
    and "spawn env (newline @ harness (req_code req) []) timeout_default = harness_run cand []"
    and "on_load cand = Loaded []"
  shows "harness_payload cand [] = Inr (ok_payload True [], []) \<and>
         fst (evaluate env st req) =
           Inr \<lparr>passed = True, feedback = ''All tests passed!'',
                details = ResDetails
                  [(''ok'', JBool True), (''results'', JArr []),
                   (''stderr'', JStr (err_text cand)), (''returncode'', JInt 0)]\<rparr>"
proof -
  have pay: "harness_payload cand [] = Inr (ok_payload True [], [])"
    by (rule harness_payload_no_checks [OF assms(6)])
  then have hr: "harness_run cand [] = Completed 0 stdout_ok_true (err_text cand)"
    by (simp add: harness_run_def dumps_ok_true)
  define ot where "ot = \<lparr>returncode = 0, stdout = stdout_ok_true, stderr = err_text cand\<rparr>"
  have run: "fst (run_user_code_capture_stdout env (temp_files st) (harness (req_code req) []) []
               timeout_default) = Inr ot"
    using assms(3-5) hr by (simp add: runner_result ot_def)
  have ld: "loads (if stdout ot = [] then ''{}'' else stdout ot) =
              Some (JObj [(''ok'', JBool True), (''results'', JArr [])])"
    by (simp add: ot_def stdout_ok_true_nonempty loads_ok_true)
  define res where "res = [(''ok'', JBool True), (''results'', JArr []),
                   (''stderr'', JStr (err_text cand)), (''returncode'', JInt 0)]"
  have r: "fst (run_user_code_and_eval env (temp_files st) (req_code req) [] timeout_default) = Inr res"
    using eval_data_obj [OF run ld] by (simp add: res_def ot_def)
  have ok: "truthy_opt (dict_get res ''ok'')" by (simp add: res_def truthy_opt_def)
  have "fst (evaluate env st req) =
          Inr \<lparr>passed = True, feedback = ''All tests passed!'', details = ResDetails res\<rparr>"
    using evaluate_eval [OF assms(1,2) r] ok by simp
  with pay show ?thesis by (simp only: res_def)
qed

theorem empty_checks_pass_witness:
  "find_exercise (chapters empty_checks_state) (req_chapter_id req_no_checks)
     (req_exercise_id req_no_checks) = Some ex_no_checks \<and>
   ex_tests ex_no_checks = Eval [] \<and>
   on_load cand_silent = Loaded [] \<and>
   fst (evaluate (env_of (harness_run cand_silent [])) empty_checks_state req_no_checks) =
     Inr \<lparr>passed = True, feedback = ''All tests passed!'',
          details = ResDetails
            [(''ok'', JBool True), (''results'', JArr []),
             (''stderr'', JStr []), (''returncode'', JInt 0)]\<rparr>"
proof -
  let ?env = "env_of (harness_run cand_silent [])"
  have h2: "ex_tests ex_no_checks = Eval []" by (simp add: ex_no_checks_def)
  have h3: "create_ok ?env" and h4: "write_ok ?env" by (simp_all add: env_of_def)
  have h5: "spawn ?env (newline @ harness (req_code req_no_checks) []) timeout_default =
              harness_run cand_silent []"
    by (simp add: env_of_def)
  have h6: "on_load cand_silent = Loaded []" by (simp add: cand_silent_def)
  have e: "err_text cand_silent = []" by (simp add: cand_silent_def)
  from empty_checks_pass [OF find_no_checks h2 h3 h4 h5 h6] e
  have "fst (evaluate ?env empty_checks_state req_no_checks) =
     Inr \<lparr>passed = True, feedback = ''All tests passed!'',
          details = ResDetails
            [(''ok'', JBool True), (''results'', JArr []),
             (''stderr'', JStr []), (''returncode'', JInt 0)]\<rparr>"
    by simp
  with find_no_checks h2 h6 show ?thesis by simp
qed

text \<open>
  A candidate that loads and prints \<^verbatim>\<open>hi\<close>, on an exercise without checks: the
  grade fails.
\<close>

lemma harness_run_prints:
  "harness_run cand_prints [] = Completed 0 (''hi'' @ newline @ stdout_ok_true) []"
  by code_simp

lemma loads_hi: "loads (''hi'' @ newline @ stdout_ok_true) = None"
  by code_simp

theorem empty_checks_counterexample:
  "fst (evaluate (env_of (harness_run cand_prints [])) empty_checks_state req_no_checks) =
     Inr \<lparr>passed = False, feedback = ''Invalid output'',
          details = ResDetails
            [(''ok'', JBool False), (''error'', JStr ''Invalid output''),
             (''stderr'', JStr []), (''returncode'', JInt 0)]\<rparr>"
proof -
  have h2: "ex_tests ex_no_checks = Eval []" by (simp add: ex_no_checks_def)
  define ot where "ot = \<lparr>returncode = 0, stdout = ''hi'' @ newline @ stdout_ok_true, stderr = []\<rparr>"
  have r: "fst (run_user_code_capture_stdout (env_of (harness_run cand_prints []))
              (temp_files empty_checks_state) (harness (req_code req_no_checks) []) [] timeout_default) =
            Inr ot"
    by (simp add: runner_result env_of_def harness_run_prints ot_def)
  have ne: "stdout ot \<noteq> []" by (simp add: ot_def)
  have ld: "loads (stdout ot) = None"
    unfolding ot_def by (simp only: exec_result.select_convs loads_hi)
  show ?thesis using evaluate_unparseable [OF find_no_checks h2 r ne ld] by (simp add: ot_def)
qed

subsection \<open>Text written before the payload\<close>

lemma scan_literal_bad_start:
  assumes "\<not> can_start_value c"
  shows "scan_literal (c # rest) = None"
proof -
  from assms have c: "c \<noteq> CHR ''n''" "c \<noteq> CHR ''t''" "c \<noteq> CHR ''f''" "c \<noteq> CHR ''N''"
    "c \<noteq> CHR ''I''" "c \<noteq> CHR ''-''" "\<not> is_digit c"
    by (auto simp: can_start_value_def)
  have z: "c \<noteq> CHR ''0''" using c(7) by (auto simp: is_digit_def)
  have num: "scan_number (c # rest) = None"
    using c z by (simp add: scan_number_def scan_int_part_def)
  show ?thesis
    using c num by (simp add: scan_literal_def strip_prefix_def)
qed

lemma loads_bad_start:
  assumes "skip_ws s = c # rest" and "\<not> can_start_value c"
  shows "loads s = None"
proof -
  from assms(2) have c: "c \<noteq> CHR ''\"''" "c \<noteq> CHR ''{''" "c \<noteq> CHR ''[''"
    by (auto simp: can_start_value_def)
  have "scan_once (Suc (2 * length s + 1)) (c # rest) = None"
    using c scan_literal_bad_start [OF assms(2)] by simp
  moreover have "2 * length s + 2 = Suc (2 * length s + 1)" by simp
  ultimately show ?thesis using assms(1) by (simp only: loads_def option.case)
qed

lemma skip_ws_append:
  assumes "skip_ws s = c # rest"
  shows "skip_ws (s @ t) = c # rest @ t"
proof -
  from assms have d: "dropWhile is_ws s = c # rest" by (simp add: skip_ws_def)
  then have "c \<in> set s" by (metis list.set_intros(1) set_dropWhileD)
  moreover from d have "\<not> is_ws c" by (metis hd_dropWhile list.distinct(1) list.sel(1))
  ultimately have "dropWhile is_ws (s @ t) = dropWhile is_ws s @ t"
    by (rule dropWhile_append1)
  with d show ?thesis by (simp add: skip_ws_def)
qed

text \<open>
  Claim C1, as the code has it. The dispatcher decodes the whole captured output as
  one JSON document, not its last line. When the text the candidate wrote before the
  payload begins, after white space, with a character that cannot begin a JSON value,
  decoding fails whatever the payload is, and the run is graded as failed with the
  raw standard error (or \<^verbatim>\<open>Invalid output\<close>) as its error.
\<close>

theorem stray_output_breaks_parsing:
  assumes "find_exercise (chapters st) (req_chapter_id req) (req_exercise_id req) = Some ex"
    and "ex_tests ex = Eval checks"
    and "create_ok env" and "write_ok env"
    and "spawn env (newline @ harness (req_code req) checks) timeout_default = harness_run cand checks"
    and "harness_payload cand checks = Inr (payload, out)"
    and "skip_ws out = c # rest" and "\<not> can_start_value c"
  shows "fst (evaluate env st req) =
           Inr \<lparr>passed = False,
                feedback = (if err_text cand = [] then ''Invalid output'' else err_text cand),
                details = ResDetails
                  [(''ok'', JBool False),
                   (''error'', JStr (if err_text cand = [] then ''Invalid output'' else err_text cand)),
                   (''stderr'', JStr (err_text cand)), (''returncode'', JInt 0)]\<rparr>"
proof -
  define ot where "ot = \<lparr>returncode = 0, stdout = out @ dumps payload @ newline, stderr = err_text cand\<rparr>"
  have hr: "harness_run cand checks = Completed 0 (out @ dumps payload @ newline) (err_text cand)"
    using assms(6) by (simp add: harness_run_def)
  have run: "fst (run_user_code_capture_stdout env (temp_files st) (harness (req_code req) checks) []
               timeout_default) = Inr ot"
    using assms(3-5) hr by (simp add: runner_result ot_def)
  from assms(7) have ne0: "out \<noteq> []" by (auto simp: skip_ws_def)
  then have ne: "stdout ot \<noteq> []" by (simp add: ot_def)
  have "skip_ws (out @ dumps payload @ newline) = c # rest @ dumps payload @ newline"
    by (rule skip_ws_append [OF assms(7)])
  from loads_bad_start [OF this assms(8)] have ld: "loads (stdout ot) = None" by (simp add: ot_def)
  show ?thesis using evaluate_unparseable [OF assms(1,2) run ne ld] by (simp add: ot_def)
qed

lemma harness_payload_stray:
  "harness_payload cand_stray add_checks = Inr (ok_payload True add_results, ''debug'' @ newline)"
  by (simp add: harness_payload_def cand_stray_def add_checks_def check_json_def
      result_json_def to_json_def add_results_def)

theorem stray_output_breaks_parsing_witness:
  "harness_payload cand_stray add_checks = Inr (ok_payload True add_results, ''debug'' @ newline) \<and>
   skip_ws (''debug'' @ newline) = CHR ''d'' # ''ebug'' @ newline \<and>
   fst (evaluate (env_of (harness_run cand_stray add_checks)) catalog_state req_add) =
     Inr \<lparr>passed = False, feedback = ''Invalid output'',
          details = ResDetails
            [(''ok'', JBool False), (''error'', JStr ''Invalid output''),
             (''stderr'', JStr []), (''returncode'', JInt 0)]\<rparr>"
proof -
  let ?env = "env_of (harness_run cand_stray add_checks)"
  have h2: "ex_tests ex_add = Eval add_checks" by (simp add: ex_add_def)
  have h3: "create_ok ?env" and h4: "write_ok ?env" by (simp_all add: env_of_def)
  have h5: "spawn ?env (newline @ harness (req_code req_add) add_checks) timeout_default =
              harness_run cand_stray add_checks"
    by (simp add: env_of_def)
  have h7: "skip_ws (''debug'' @ newline) = CHR ''d'' # ''ebug'' @ newline"
    by (simp add: skip_ws_def is_ws_def)
  have h8: "\<not> can_start_value (CHR ''d'')"
    by (simp add: can_start_value_def is_digit_def)
  have e: "err_text cand_stray = []" by (simp add: cand_stray_def)
  from stray_output_breaks_parsing [OF find_add h2 h3 h4 h5 harness_payload_stray h7 h8] e
  have "fst (evaluate ?env catalog_state req_add) =
     Inr \<lparr>passed = False, feedback = ''Invalid output'',
          details = ResDetails
            [(''ok'', JBool False), (''error'', JStr ''Invalid output''),
             (''stderr'', JStr []), (''returncode'', JInt 0)]\<rparr>"
    by simp
  with harness_payload_stray h7 show ?thesis by simp
qed

text \<open>
  On \<^verbatim>\<open>def-add\<close>, a candidate that prints \<^verbatim>\<open>debug\<close> while loading and passes
  every check: the payload line alone decodes to the payload, the captured output
  does not, and the dispatcher returns the made-up failure payload.
\<close>

lemma loads_payload_line:
  "loads (dumps (ok_payload True add_results) @ newline) = Some (ok_payload True add_results)"
  by code_simp

lemma loads_stray_then_payload:
  "loads ((''debug'' @ newline) @ dumps (ok_payload True add_results) @ newline) = None"
  by code_simp

theorem stray_output_counterexample:
  "harness_run cand_stray add_checks =
     Completed 0 ((''debug'' @ newline) @ dumps (ok_payload True add_results) @ newline) [] \<and>
   loads (dumps (ok_payload True add_results) @ newline) = Some (ok_payload True add_results) \<and>
   loads ((''debug'' @ newline) @ dumps (ok_payload True add_results) @ newline) = None \<and>
   fst (run_user_code_and_eval (env_of (harness_run cand_stray add_checks)) Map.empty
          (req_code req_add) add_checks timeout_default) =
     Inr [(''ok'', JBool False), (''error'', JStr ''Invalid output''),
          (''stderr'', JStr []), (''returncode'', JInt 0)]"
proof -
  define out where "out = (''debug'' @ newline) @ dumps (ok_payload True add_results) @ newline"
  define ot where "ot = \<lparr>returncode = 0, stdout = out, stderr = []\<rparr>"
  have hr: "harness_run cand_stray add_checks = Completed 0 out []"
  proof -
    have e: "err_text cand_stray = []" by (simp add: cand_stray_def)
    show ?thesis
      unfolding out_def harness_run_def harness_payload_stray
      by (simp only: sum.case prod.case e)
  qed
  have r: "fst (run_user_code_capture_stdout (env_of (harness_run cand_stray add_checks)) Map.empty
              (harness (req_code req_add) add_checks) [] timeout_default) = Inr ot"
    by (simp add: runner_result env_of_def hr ot_def)
  have ne: "out \<noteq> []" by (simp add: out_def)
  have ln: "loads out = None" unfolding out_def by (rule loads_stray_then_payload)
  have ld: "loads (if stdout ot = [] then ''{}'' else stdout ot) = None"
    using ne ln by (simp add: ot_def)
  have d: "fst (run_user_code_and_eval (env_of (harness_run cand_stray add_checks)) Map.empty
          (req_code req_add) add_checks timeout_default) =
     Inr [(''ok'', JBool False), (''error'', JStr ''Invalid output''),
          (''stderr'', JStr []), (''returncode'', JInt 0)]"
    using eval_data_none [OF r ld] by (simp add: ot_def)
  from hr loads_payload_line ln d show ?thesis
    unfolding out_def by (intro conjI)
qed

end
